theory Spec2Isabelle
  imports Main
begin

section \<open>Greenly: the authorization middleware\<close>

text \<open>
  The development embeds three functions of the server library:
  \<^item> \<open>check\<close> of the authorization library (the switch over the resource kinds),
  \<^item> \<open>check\<close> of the authentication library, which the authorization check calls when a
    new administrator is created (here \<open>authentication_check\<close>),
  \<^item> \<open>getUserByID\<close> of the persistence library, which the authentication check calls.

  Everything outside these functions is a parameter, collected in the record \<open>env\<close>:
  the string-to-number coercion of the language, the passport JWT strategy, the Prisma
  query behind \<open>getUserByID\<close>, the body of \<open>defaultErr()\<close> and the two relationship
  queries of the persistence library.
\<close>

subsection \<open>Data\<close>

text \<open>
  The user record as \<open>getUserByID\<close> selects it. Only \<open>id\<close>, \<open>type\<close> and the ids of
  \<open>Address\<close> are read by the authorization check; \<open>type\<close> is compared as a string.
\<close>

record address =
  address_id :: int

record user =
  user_id :: int
  user_type :: string
  Address :: "address list"

text \<open>
  The request as the middleware reads it. \<open>params\<close> maps a route parameter to its string
  (Express keeps route parameters as strings); a parameter the route does not bind reads as
  \<open>undefined\<close>, here \<open>None\<close>. \<open>body_type\<close> is the own property \<open>type\<close> of the parsed
  body: \<open>None\<close> when the body has no such property; when present it is a string, the
  name of an account type. \<open>body_hasOwnProperty\<close> says that the parsed body has an own
  property named \<open>hasOwnProperty\<close>, as the JSON body \<open>{"hasOwnProperty": 1}\<close> has:
  its value is a JSON value, never a function, and it hides the method every object
  inherits. \<open>bearer\<close> is the bearer token of the Authorization
  header. \<open>req_user\<close> is \<open>req.user\<close>: \<open>None\<close> while no authentication middleware has
  attached a user.
\<close>

record request =
  req_method :: string
  baseUrl :: string
  route_path :: string
  params :: "string \<Rightarrow> string option"
  body_type :: "string option"
  body_hasOwnProperty :: bool
  bearer :: "string option"
  req_user :: "user option"

text \<open>An awaited call of a collaborator either resolves to a value or rejects.\<close>

datatype 'a promise = Resolves 'a | Rejects

text \<open>
  What the JWT strategy hands to the callback of \<open>passport.authenticate\<close>: an error or no
  user (\<open>err || !tokenUser\<close>), or the user object of the token, of which only \<open>id\<close> is
  read (it may be missing).
\<close>

datatype jwt = Invalid | TokenUser "int option"

text \<open>
  \<open>toNumber s\<close> is \<open>Some n\<close> when the language converts the string \<open>s\<close> to the number
  \<open>n\<close>, an integer, and \<open>None\<close> when it converts it to anything else (NaN, a fraction, an
  infinity): ids are integers, so nothing else can compare equal to one.
\<close>

record env =
  toNumber :: "string \<Rightarrow> int option"
  passport_jwt :: "string option \<Rightarrow> jwt"
  findUnique :: "int option \<Rightarrow> user option promise"
  defaultErr :: string
  checkUserOrderRelationship :: "user option \<Rightarrow> string option \<Rightarrow> bool promise"
  checkUserItemRelationship ::
    "user option \<Rightarrow> string option \<Rightarrow> string option \<Rightarrow> bool promise"

text \<open>The resource kinds: the values of the table \<open>resourceIdentification\<close>.\<close>

datatype resource =
    ALL_USERS | SINGLE_USER | ALL_ADDRESSES | SINGLE_ADDRESS
  | ALL_NOTIFICATIONS | SINGLE_NOTIFICATION | ALL_USER_ORDERS | SINGLE_PRODUCT
  | ALL_ORDERS | SINGLE_ORDER | SINGLE_ORDER_ITEM | ALL_CATEGORIES | SINGLE_CATEGORY
  | ALL_CART_ITEMS | SINGLE_CART_ITEM | ALL_WISHLIST_ITEMS | SINGLE_WISHLIST_ITEM

text \<open>
  What a run of the middleware leaves behind: how the asynchronous function ended (it
  returned, it threw, so that its promise rejects, or it waits for ever on a promise nobody
  resolves), how often \<open>next()\<close> was called, the responses sent, the relationship queries
  made, in order, and \<open>req.user\<close> at the end.
\<close>

datatype completion = Returned | Threw | Pending

record response =
  status :: nat
  message :: string

datatype query =
    OrderRelationship "user option" "string option"
  | ItemRelationship "user option" "string option" "string option"

record result =
  completion :: completion
  next_calls :: nat
  responses :: "response list"
  queries :: "query list"
  user_after :: "user option"

subsection \<open>Persistence and authentication\<close>

text \<open>\<open>getUserByID\<close> catches every error of the query and answers \<open>null\<close>.\<close>

definition getUserByID :: "env \<Rightarrow> int option \<Rightarrow> user option promise" where
  "getUserByID e i =
     (case findUnique e i of Resolves u \<Rightarrow> Resolves u | Rejects \<Rightarrow> Resolves None)"

definition unauthorized :: response where
  "unauthorized = \<lparr>status = 401, message = ''Invalid token. Unauthorized access.''\<rparr>"

text \<open>
  The authentication check either attaches the retrieved user to the request and calls its
  continuation (\<open>Authenticated\<close>), or sends a response and never calls it (\<open>Refused\<close>):
  401 when the token is invalid or the user is not found, 500 in the \<open>catch\<close> around
  \<open>getUserByID\<close> (a branch that \<open>getUserByID\<close>, which never rejects, leaves dead).
\<close>

datatype authentication = Authenticated user | Refused response

definition authentication_check :: "env \<Rightarrow> request \<Rightarrow> authentication" where
  "authentication_check e req =
     (case passport_jwt e (bearer req) of
        Invalid \<Rightarrow> Refused unauthorized
      | TokenUser i \<Rightarrow>
          (case getUserByID e i of
             Resolves (Some retrievedUser) \<Rightarrow> Authenticated retrievedUser
           | Resolves None \<Rightarrow> Refused unauthorized
           | Rejects \<Rightarrow> Refused \<lparr>status = 500, message = defaultErr e\<rparr>))"

subsection \<open>The authorization check\<close>

definition resourceIdentification :: "string \<Rightarrow> resource option" where
  "resourceIdentification = map_of
     [(''/user/'', ALL_USERS),
      (''/user/:userId'', SINGLE_USER),
      (''/user/:userId/addresses'', ALL_ADDRESSES),
      (''/user/:userId/addresses/:addressId'', SINGLE_ADDRESS),
      (''/user/:userId/notifications'', ALL_NOTIFICATIONS),
      (''/user/:userId/notifications/:notificationId'', SINGLE_NOTIFICATION),
      (''/user/:userId/orders'', ALL_USER_ORDERS),
      (''/store/products/:productId'', SINGLE_PRODUCT),
      (''/store/orders'', ALL_ORDERS),
      (''/store/orders/:orderId'', SINGLE_ORDER),
      (''/store/orders/:orderId/:itemId'', SINGLE_ORDER_ITEM),
      (''/store/categories'', ALL_CATEGORIES),
      (''/store/categories/:categoryId'', SINGLE_CATEGORY),
      (''/user/:userId/cart'', ALL_CART_ITEMS),
      (''/user/:userId/cart/:index'', SINGLE_CART_ITEM),
      (''/user/:userId/wishlist'', ALL_WISHLIST_ITEMS),
      (''/user/:userId/wishlist/:productId'', SINGLE_WISHLIST_ITEM)]"

definition isAdministrator :: "user \<Rightarrow> bool" where
  "isAdministrator u = (user_type u = ''ADMINISTRATOR'')"

definition isConsumer :: "user \<Rightarrow> bool" where
  "isConsumer u = (user_type u = ''CONSUMER'')"

text \<open>
  \<open>param == id\<close>, a route parameter against a numeric id: the string is converted to a
  number and the numbers are compared; \<open>undefined\<close> equals no number.
\<close>

definition loose_eq :: "env \<Rightarrow> string option \<Rightarrow> int \<Rightarrow> bool" where
  "loose_eq e p n = (case p of None \<Rightarrow> False | Some s \<Rightarrow> toNumber e s = Some n)"

text \<open>\<open>Number(param)\<close>; \<open>Number(undefined)\<close> is NaN.\<close>

definition Number :: "env \<Rightarrow> string option \<Rightarrow> int option" where
  "Number e p = (case p of None \<Rightarrow> None | Some s \<Rightarrow> toNumber e s)"

text \<open>\<open>ids.includes(v)\<close> on a list of integer ids.\<close>

definition includes_id :: "int list \<Rightarrow> int option \<Rightarrow> bool" where
  "includes_id ids v = (case v of None \<Rightarrow> False | Some n \<Rightarrow> n \<in> set ids)"

definition forbidden :: response where
  "forbidden =
     \<lparr>status = 403, message = ''Insufficient permissions for specified resource.''\<rparr>"

text \<open>
  The three ways the switch is left: \<open>return next()\<close>; a \<open>break\<close>, after which the last
  line of the function sends the 403 response; and a TypeError, raised where a property of
  \<open>req.user\<close> is read while \<open>req.user\<close> is \<open>undefined\<close> or where a value that is no
  function is called, or the rejection of an awaited query: nothing in the function catches
  either.
\<close>

definition allow :: "request \<Rightarrow> query list \<Rightarrow> result" where
  "allow req qs =
     \<lparr>completion = Returned, next_calls = 1, responses = [], queries = qs,
      user_after = req_user req\<rparr>"

definition reject :: "request \<Rightarrow> query list \<Rightarrow> result" where
  "reject req qs =
     \<lparr>completion = Returned, next_calls = 0, responses = [forbidden], queries = qs,
      user_after = req_user req\<rparr>"

definition throw :: "request \<Rightarrow> query list \<Rightarrow> result" where
  "throw req qs =
     \<lparr>completion = Threw, next_calls = 0, responses = [], queries = qs,
      user_after = req_user req\<rparr>"

text \<open>
  The fourth way, in the creation of an administrator only: the authentication check has
  sent the response \<open>r\<close> and never calls the callback that resolves the awaited
  promise, so the function never goes on.
\<close>

definition pending :: "request \<Rightarrow> response \<Rightarrow> result" where
  "pending req r =
     \<lparr>completion = Pending, next_calls = 0, responses = [r], queries = [],
      user_after = req_user req\<rparr>"

text \<open>
  \<open>with_user req f\<close> is a branch that reads \<open>req.user.id\<close> or \<open>req.user.type\<close>
  first of all: it throws when no user is attached, and goes on as \<open>f\<close> with the user
  otherwise.
\<close>

definition with_user :: "request \<Rightarrow> (user \<Rightarrow> result) \<Rightarrow> result" where
  "with_user req f = (case req_user req of None \<Rightarrow> throw req [] | Some u \<Rightarrow> f u)"

text \<open>
  \<open>req.body.hasOwnProperty('type')\<close>: the inherited method answers whether the body has
  an own property \<open>type\<close>; where the body has an own property \<open>hasOwnProperty\<close>, the
  call is the call of a value that is not a function and raises a TypeError, here
  \<open>None\<close>.
\<close>

definition hasOwnProperty_type :: "request \<Rightarrow> bool option" where
  "hasOwnProperty_type req =
     (if body_hasOwnProperty req then None else Some (body_type req \<noteq> None))"

text \<open>
  The cases of the switch, in the order of the source. \<open>SINGLE_PRODUCT\<close> is in the table
  but has no case: it takes the \<open>default\<close> branch.
\<close>

fun check_case :: "env \<Rightarrow> request \<Rightarrow> resource \<Rightarrow> result" where
  "check_case e req ALL_USERS =
     (if req_method req = ''POST'' then
        (if body_type req = Some ''ADMINISTRATOR'' then
           (case authentication_check e req of
              Refused r \<Rightarrow> pending req r
            | Authenticated u \<Rightarrow>
                (if isAdministrator u then allow (req\<lparr>req_user := Some u\<rparr>) []
                 else reject (req\<lparr>req_user := Some u\<rparr>) []))
         else allow req [])
      else with_user req (\<lambda>u. if isAdministrator u then allow req [] else reject req []))"
| "check_case e req SINGLE_USER =
     (case (if req_method req = ''PUT'' then hasOwnProperty_type req else Some False) of
        None \<Rightarrow> throw req []
      | Some True \<Rightarrow>
          with_user req (\<lambda>u. if isAdministrator u then allow req [] else reject req [])
      | Some False \<Rightarrow>
          with_user req (\<lambda>u.
            if loose_eq e (params req ''userId'') (user_id u) \<or> isAdministrator u
            then allow req [] else reject req []))"
| "check_case e req SINGLE_ADDRESS =
     with_user req (\<lambda>u.
       if isAdministrator u then allow req []
       else
         (let userAddressIDs = map address_id (Address u) in
          if loose_eq e (params req ''userId'') (user_id u) \<and>
             includes_id userAddressIDs (Number e (params req ''addressId''))
          then allow req [] else reject req []))"
| "check_case e req ALL_ADDRESSES =
     with_user req (\<lambda>u.
       if loose_eq e (params req ''userId'') (user_id u) \<or> isAdministrator u
       then allow req [] else reject req [])"
| "check_case e req ALL_NOTIFICATIONS =
     (if req_method req = ''GET'' then
        with_user req (\<lambda>u.
          if loose_eq e (params req ''userId'') (user_id u) \<or> isAdministrator u
          then allow req [] else reject req [])
      else if req_method req = ''PUT'' then
        with_user req (\<lambda>u.
          if loose_eq e (params req ''userId'') (user_id u)
          then allow req [] else reject req [])
      else reject req [])"
| "check_case e req SINGLE_NOTIFICATION =
     (if req_method req = ''PUT'' then
        with_user req (\<lambda>u.
          if loose_eq e (params req ''userId'') (user_id u)
          then allow req [] else reject req [])
      else reject req [])"
| "check_case e req ALL_USER_ORDERS =
     (if req_method req = ''POST'' then
        with_user req (\<lambda>u.
          if loose_eq e (params req ''userId'') (user_id u) \<and> isConsumer u
          then allow req [] else reject req [])
      else if req_method req = ''GET'' then
        with_user req (\<lambda>u.
          if loose_eq e (params req ''userId'') (user_id u) \<or> isAdministrator u
          then allow req [] else reject req [])
      else reject req [])"
| "check_case e req ALL_ORDERS = allow req []"
| "check_case e req SINGLE_ORDER =
     (if req_method req = ''GET'' then
        (let q = OrderRelationship (req_user req) (params req ''orderId'') in
         case checkUserOrderRelationship e (req_user req) (params req ''orderId'') of
           Rejects \<Rightarrow> throw req [q]
         | Resolves isRelated \<Rightarrow> if isRelated then allow req [q] else reject req [q])
      else reject req [])"
| "check_case e req SINGLE_ORDER_ITEM =
     (if req_method req = ''PUT'' then
        (let q1 = OrderRelationship (req_user req) (params req ''orderId'');
             q2 = ItemRelationship (req_user req) (params req ''orderId'')
                    (params req ''itemId'') in
         case checkUserOrderRelationship e (req_user req) (params req ''orderId'') of
           Rejects \<Rightarrow> throw req [q1]
         | Resolves isRelatedToOrder \<Rightarrow>
             if isRelatedToOrder then
               (case checkUserItemRelationship e (req_user req) (params req ''orderId'')
                       (params req ''itemId'') of
                  Rejects \<Rightarrow> throw req [q1, q2]
                | Resolves isRelatedToItem \<Rightarrow>
                    if isRelatedToItem then allow req [q1, q2] else reject req [q1, q2])
             else reject req [q1])
      else reject req [])"
| "check_case e req ALL_CATEGORIES =
     with_user req (\<lambda>u. if isAdministrator u then allow req [] else reject req [])"
| "check_case e req SINGLE_CATEGORY =
     with_user req (\<lambda>u. if isAdministrator u then allow req [] else reject req [])"
| "check_case e req ALL_CART_ITEMS =
     with_user req (\<lambda>u.
       if loose_eq e (params req ''userId'') (user_id u) \<and> isConsumer u
       then allow req [] else reject req [])"
| "check_case e req SINGLE_CART_ITEM =
     with_user req (\<lambda>u.
       if loose_eq e (params req ''userId'') (user_id u) \<and> isConsumer u
       then allow req [] else reject req [])"
| "check_case e req ALL_WISHLIST_ITEMS =
     with_user req (\<lambda>u.
       if loose_eq e (params req ''userId'') (user_id u) \<and> isConsumer u
       then allow req [] else reject req [])"
| "check_case e req SINGLE_WISHLIST_ITEM =
     with_user req (\<lambda>u.
       if loose_eq e (params req ''userId'') (user_id u) \<and> isConsumer u
       then allow req [] else reject req [])"
| "check_case e req SINGLE_PRODUCT = reject req []"

definition check :: "env \<Rightarrow> request \<Rightarrow> result" where
  "check e req =
     (let incomingRoute = baseUrl req @ route_path req in
      case resourceIdentification incomingRoute of
        None \<Rightarrow> reject req []
      | Some kind \<Rightarrow> check_case e req kind)"

subsection \<open>The vocabulary of the claims\<close>

text \<open>
  The check allows a request when it returns after one call of \<open>next()\<close>, having sent
  nothing. It denies a request when it returns without a call of \<open>next()\<close>, having sent
  the 403 response and nothing else.
\<close>

definition allows :: "result \<Rightarrow> bool" where
  "allows r = (completion r = Returned \<and> next_calls r = 1 \<and> responses r = [])"

definition denies :: "result \<Rightarrow> bool" where
  "denies r = (completion r = Returned \<and> next_calls r = 0 \<and> responses r = [forbidden])"

text \<open>
  The methods the source lists as valid under each kind, in the comments of its cases
  ("This is valid for: GET, PUT", "This is only valid for: POST"). The case of
  \<open>ALL_USERS\<close> has a rule for POST and one "for any other access", so every method is
  listed; the cases of \<open>ALL_USER_ORDERS\<close> and \<open>SINGLE_ORDER\<close> carry no such comment and
  list the methods their rules name; \<open>SINGLE_PRODUCT\<close> has no case and lists none.
\<close>

fun valid_for :: "resource \<Rightarrow> string list option" where
  "valid_for ALL_USERS = None"
| "valid_for SINGLE_USER = Some [''GET'', ''PUT'', ''DELETE'']"
| "valid_for SINGLE_ADDRESS = Some [''PUT'', ''DELETE'']"
| "valid_for ALL_ADDRESSES = Some [''POST'']"
| "valid_for ALL_NOTIFICATIONS = Some [''GET'', ''PUT'']"
| "valid_for SINGLE_NOTIFICATION = Some [''PUT'']"
| "valid_for ALL_USER_ORDERS = Some [''POST'', ''GET'']"
| "valid_for ALL_ORDERS = Some [''GET'']"
| "valid_for SINGLE_ORDER = Some [''GET'']"
| "valid_for SINGLE_ORDER_ITEM = Some [''GET'', ''PUT'']"
| "valid_for ALL_CATEGORIES = Some [''POST'']"
| "valid_for SINGLE_CATEGORY = Some [''PUT'', ''DELETE'']"
| "valid_for ALL_CART_ITEMS = Some [''GET'', ''POST'', ''DELETE'']"
| "valid_for SINGLE_CART_ITEM = Some [''PUT'', ''DELETE'']"
| "valid_for ALL_WISHLIST_ITEMS = Some [''GET'', ''POST'', ''DELETE'']"
| "valid_for SINGLE_WISHLIST_ITEM = Some [''DELETE'']"
| "valid_for SINGLE_PRODUCT = Some []"

text \<open>A method is listed under a kind.\<close>

definition listed :: "resource \<Rightarrow> string \<Rightarrow> bool" where
  "listed k m = (case valid_for k of None \<Rightarrow> True | Some ms \<Rightarrow> m \<in> set ms)"

text \<open>The two relationship queries of a request, as the check calls them.\<close>

definition order_query :: "env \<Rightarrow> request \<Rightarrow> bool promise" where
  "order_query e req = checkUserOrderRelationship e (req_user req) (params req ''orderId'')"

definition item_query :: "env \<Rightarrow> request \<Rightarrow> bool promise" where
  "item_query e req =
     checkUserItemRelationship e (req_user req) (params req ''orderId'') (params req ''itemId'')"

definition is_item_query :: "query \<Rightarrow> bool" where
  "is_item_query q = (case q of ItemRelationship u p i \<Rightarrow> True | _ \<Rightarrow> False)"

text \<open>
  A collaborator that the check consults fails. The identity store is consulted in the
  creation of an administrator, once the token is valid; its failure is the rejection of
  the query behind \<open>getUserByID\<close>. The relationship queries are awaited under
  \<open>SINGLE_ORDER\<close> and \<open>SINGLE_ORDER_ITEM\<close>, the second only after the first resolved to
  true.
\<close>

definition store_fails :: "env \<Rightarrow> request \<Rightarrow> bool" where
  "store_fails e req =
     (resourceIdentification (baseUrl req @ route_path req) = Some ALL_USERS \<and>
      req_method req = ''POST'' \<and> body_type req = Some ''ADMINISTRATOR'' \<and>
      (case passport_jwt e (bearer req) of
         Invalid \<Rightarrow> False
       | TokenUser i \<Rightarrow> findUnique e i = Rejects))"

definition oracle_fails :: "env \<Rightarrow> request \<Rightarrow> bool" where
  "oracle_fails e req =
     (case resourceIdentification (baseUrl req @ route_path req) of
        Some SINGLE_ORDER \<Rightarrow> req_method req = ''GET'' \<and> order_query e req = Rejects
      | Some SINGLE_ORDER_ITEM \<Rightarrow>
          req_method req = ''PUT'' \<and>
          (order_query e req = Rejects \<or>
           order_query e req = Resolves True \<and> item_query e req = Rejects)
      | _ \<Rightarrow> False)"

subsection \<open>Example requests\<close>

text \<open>
  The coercion of the example environments reads a non-empty string of decimal digits, as
  the language does; the examples apply it to such strings only.
\<close>

definition digit :: "char \<Rightarrow> int option" where
  "digit c =
     (let n = int (of_char c) in if 48 \<le> n \<and> n \<le> 57 then Some (n - 48) else None)"

fun decimal_from :: "int \<Rightarrow> string \<Rightarrow> int option" where
  "decimal_from acc [] = Some acc"
| "decimal_from acc (c # cs) =
     (case digit c of None \<Rightarrow> None | Some d \<Rightarrow> decimal_from (10 * acc + d) cs)"

definition decimal :: "string \<Rightarrow> int option" where
  "decimal s = (if s = [] then None else decimal_from 0 s)"

text \<open>
  An environment whose collaborators answer the same to every call: the JWT strategy
  \<open>j\<close>, the user query \<open>f\<close>, the order query \<open>r\<close> and the item query \<open>i\<close>.
\<close>

definition example_env ::
  "jwt \<Rightarrow> user option promise \<Rightarrow> bool promise \<Rightarrow> bool promise \<Rightarrow> env" where
  "example_env j f r i =
     \<lparr>toNumber = decimal, passport_jwt = (\<lambda>t. j), findUnique = (\<lambda>k. f),
      defaultErr = ''Something went wrong.'',
      checkUserOrderRelationship = (\<lambda>u p. r),
      checkUserItemRelationship = (\<lambda>u p q. i)\<rparr>"

definition quiet_env :: env where
  "quiet_env = example_env Invalid (Resolves None) (Resolves False) (Resolves False)"

text \<open>The caller of the address scenario, and the same caller as an administrator.\<close>

definition scenario_caller :: user where
  "scenario_caller =
     \<lparr>user_id = 5, user_type = ''CONSUMER'',
      Address = [\<lparr>address_id = 9\<rparr>, \<lparr>address_id = 12\<rparr>]\<rparr>"

definition administrator :: user where
  "administrator = scenario_caller\<lparr>user_type := ''ADMINISTRATOR''\<rparr>"

text \<open>
  A request of user 5's routes: method \<open>m\<close>, the route path \<open>p\<close> under \<open>/user\<close>, the
  body's \<open>type\<close> field \<open>t\<close> and the attached user \<open>u\<close>.
\<close>

definition user_request ::
  "string \<Rightarrow> string \<Rightarrow> string option \<Rightarrow> user option \<Rightarrow> request" where
  "user_request m p t u =
     \<lparr>req_method = m, baseUrl = ''/user'', route_path = p, params = [''userId'' \<mapsto> ''5''],
      body_type = t, body_hasOwnProperty = False, bearer = None, req_user = u\<rparr>"

text \<open>\<open>DELETE /user/5/addresses/a\<close> by the caller of the scenario.\<close>

definition scenario_request :: "string \<Rightarrow> request" where
  "scenario_request a =
     \<lparr>req_method = ''DELETE'', baseUrl = ''/user'',
      route_path = ''/:userId/addresses/:addressId'',
      params = [''userId'' \<mapsto> ''5'', ''addressId'' \<mapsto> a],
      body_type = None, body_hasOwnProperty = False, bearer = None,
      req_user = Some scenario_caller\<rparr>"

text \<open>A request of order 7's routes under \<open>/store\<close>, item 3.\<close>

definition order_request :: "string \<Rightarrow> string \<Rightarrow> request" where
  "order_request m p =
     \<lparr>req_method = m, baseUrl = ''/store'', route_path = p,
      params = [''orderId'' \<mapsto> ''7'', ''itemId'' \<mapsto> ''3''],
      body_type = None, body_hasOwnProperty = False, bearer = None,
      req_user = Some scenario_caller\<rparr>"

section \<open>Properties\<close>

subsection \<open>Basic facts\<close>

lemma allows_simps:
  "allows (allow req qs)" "\<not> allows (reject req qs)" "\<not> allows (throw req qs)"
  "\<not> allows (pending req r)"
  by (simp_all add: allows_def allow_def reject_def throw_def pending_def)

lemma denies_simps:
  "\<not> denies (allow req qs)" "denies (reject req qs)" "\<not> denies (throw req qs)"
  "\<not> denies (pending req r)"
  by (simp_all add: denies_def allow_def reject_def throw_def pending_def)

lemma next_calls_simps:
  "next_calls (allow req qs) = 1" "next_calls (reject req qs) = 0"
  "next_calls (throw req qs) = 0" "next_calls (pending req r) = 0"
  by (simp_all add: allow_def reject_def throw_def pending_def)

lemma responses_simps:
  "responses (allow req qs) = []" "responses (reject req qs) = [forbidden]"
  "responses (throw req qs) = []" "responses (pending req r) = [r]"
  by (simp_all add: allow_def reject_def throw_def pending_def)

lemma completion_simps:
  "completion (allow req qs) = Returned" "completion (reject req qs) = Returned"
  "completion (throw req qs) = Threw" "completion (pending req r) = Pending"
  by (simp_all add: allow_def reject_def throw_def pending_def)

lemma queries_simps:
  "queries (allow req qs) = qs" "queries (reject req qs) = qs"
  "queries (throw req qs) = qs" "queries (pending req r) = []"
  by (simp_all add: allow_def reject_def throw_def pending_def)

lemma with_user_Some: "req_user req = Some u \<Longrightarrow> with_user req f = f u"
  by (simp add: with_user_def)

lemma with_user_None: "req_user req = None \<Longrightarrow> with_user req f = throw req []"
  by (simp add: with_user_def)

lemma check_kind:
  "resourceIdentification (baseUrl req @ route_path req) = Some k \<Longrightarrow>
   check e req = check_case e req k"
  by (simp add: check_def)

lemma check_unclassified:
  "resourceIdentification (baseUrl req @ route_path req) = None \<Longrightarrow>
   check e req = reject req []"
  by (simp add: check_def)

lemma getUserByID_resolves: "getUserByID e i \<noteq> Rejects"
  by (simp add: getUserByID_def split: promise.splits)

lemma authentication_check_Refused:
  "authentication_check e req = Refused r \<Longrightarrow> r = unauthorized"
  using getUserByID_resolves[of e]
  by (auto simp: authentication_check_def split: jwt.splits promise.splits option.splits)

lemma authentication_check_Authenticated:
  "authentication_check e req = Authenticated u \<longleftrightarrow>
     (\<exists>i. passport_jwt e (bearer req) = TokenUser i \<and> findUnique e i = Resolves (Some u))"
  by (auto simp: authentication_check_def getUserByID_def
      split: jwt.splits promise.splits option.splits)

text \<open>The four shapes of a run.\<close>

lemma check_case_shapes:
  "(\<exists>r qs. check_case e req k = allow r qs) \<or> (\<exists>r qs. check_case e req k = reject r qs) \<or>
   (\<exists>r qs. check_case e req k = throw r qs) \<or>
   (\<exists>r. check_case e req k = pending req r \<and> r = unauthorized)"
proof (cases k)
  case ALL_USERS
  then show ?thesis
    using authentication_check_Refused[of e req]
    by (auto simp: with_user_def split: authentication.splits option.splits)
next
  case SINGLE_USER
  then show ?thesis
    by (cases "req_user req"; cases "req_method req = ''PUT''";
        cases "body_hasOwnProperty req"; cases "body_type req")
       (auto simp: with_user_def hasOwnProperty_type_def)
qed (auto simp: with_user_def Let_def split: option.splits promise.splits)

lemma check_shapes:
  "(\<exists>r qs. check e req = allow r qs) \<or> (\<exists>r qs. check e req = reject r qs) \<or>
   (\<exists>r qs. check e req = throw r qs) \<or>
   (\<exists>r. check e req = pending req r \<and> r = unauthorized)"
proof (cases "resourceIdentification (baseUrl req @ route_path req)")
  case None
  then show ?thesis by (auto simp: check_unclassified)
next
  case (Some k)
  then show ?thesis using check_case_shapes[of e req k] by (simp add: check_kind)
qed

lemma decimal_examples:
  "decimal ''5'' = Some 5" "decimal ''9'' = Some 9" "decimal ''99'' = Some 99"
  "decimal ''7'' = Some 7" "decimal ''3'' = Some 3"
  by (simp_all add: decimal_def digit_def)

lemma check_cases:
  obtains (allowed) r qs where "check e req = allow r qs"
  | (rejected) r qs where "check e req = reject r qs"
  | (thrown) r qs where "check e req = throw r qs"
  | (unauthenticated) "check e req = pending req unauthorized"
  using check_shapes[of e req] by blast

lemma returned_without_next:
  assumes "completion (check e req) = Returned" and "next_calls (check e req) = 0"
  shows "responses (check e req) = [forbidden]"
proof (cases e req rule: check_cases)
  case (allowed r qs)
  with assms show ?thesis by (simp add: next_calls_simps)
next
  case (rejected r qs)
  then show ?thesis by (simp add: responses_simps)
next
  case (thrown r qs)
  with assms show ?thesis by (simp add: completion_simps)
next
  case unauthenticated
  with assms show ?thesis by (simp add: completion_simps)
qed

lemma responses_of_check:
  "responses (check e req) = [] \<or> responses (check e req) = [forbidden] \<or>
   responses (check e req) = [unauthorized]"
  by (cases e req rule: check_cases) (simp_all add: responses_simps)

subsection \<open>The rules of a single user\<close>

text \<open>
  Under \<open>SINGLE_USER\<close>, a PUT request whose body has an own property
  \<open>hasOwnProperty\<close> ends in a TypeError before any rule is tried. Every other request
  with a caller attached meets one of two rules: the administrator alone for a PUT with a
  \<open>type\<close> field, the owner or an administrator otherwise.
\<close>

lemma single_user_put_throws:
  assumes "resourceIdentification (baseUrl req @ route_path req) = Some SINGLE_USER"
    and "req_method req = ''PUT''" and "body_hasOwnProperty req"
  shows "check e req = throw req []"
  using assms by (simp add: check_kind hasOwnProperty_type_def)

lemma single_user_rule:
  assumes "resourceIdentification (baseUrl req @ route_path req) = Some SINGLE_USER"
    and "req_user req = Some u"
    and "req_method req \<noteq> ''PUT'' \<or> \<not> body_hasOwnProperty req \<and> body_type req = None"
  shows "check e req =
           (if loose_eq e (params req ''userId'') (user_id u) \<or> isAdministrator u
            then allow req [] else reject req [])"
  using assms by (auto simp: check_kind hasOwnProperty_type_def with_user_Some)

lemma single_user_type_change_rule:
  assumes "resourceIdentification (baseUrl req @ route_path req) = Some SINGLE_USER"
    and "req_user req = Some u"
    and "req_method req = ''PUT''" and "\<not> body_hasOwnProperty req"
    and "body_type req \<noteq> None"
  shows "check e req = (if isAdministrator u then allow req [] else reject req [])"
  using assms by (auto simp: check_kind hasOwnProperty_type_def with_user_Some)

subsection \<open>The claims\<close>

text \<open>
  C1, on the code. The claim asks that a method with no rule under its kind be denied,
  whoever calls. Ten cases of the switch never read the method, so their rule is tried for
  every method, also for those the source does not list as valid. \<open>DELETE /store/orders\<close>
  is allowed with no caller, although \<open>ALL_ORDERS\<close> lists GET only.
  \<open>GET /store/categories\<close> is allowed to an administrator, although \<open>ALL_CATEGORIES\<close>
  lists POST only; with no caller it throws, and no 403 is sent.
\<close>

theorem unlisted_methods_allowed:
  "resourceIdentification ''/store/orders'' = Some ALL_ORDERS \<and>
   \<not> listed ALL_ORDERS ''DELETE'' \<and>
   allows (check quiet_env ((order_request ''DELETE'' ''/orders'')\<lparr>req_user := None\<rparr>)) \<and>
   resourceIdentification ''/store/categories'' = Some ALL_CATEGORIES \<and>
   \<not> listed ALL_CATEGORIES ''GET'' \<and>
   allows (check quiet_env
     ((order_request ''GET'' ''/categories'')\<lparr>req_user := Some administrator\<rparr>)) \<and>
   check quiet_env ((order_request ''GET'' ''/categories'')\<lparr>req_user := None\<rparr>) =
     \<lparr>completion = Threw, next_calls = 0, responses = [], queries = [],
      user_after = None\<rparr>"
proof -
  have orders: "allows (check quiet_env ((order_request ''DELETE'' ''/orders'')\<lparr>req_user := None\<rparr>))"
    by (simp add: check_def resourceIdentification_def order_request_def allows_simps)
  have admin: "allows (check quiet_env
      ((order_request ''GET'' ''/categories'')\<lparr>req_user := Some administrator\<rparr>))"
    by (simp add: check_def resourceIdentification_def order_request_def with_user_def
        isAdministrator_def administrator_def allows_simps)
  have nobody: "check quiet_env ((order_request ''GET'' ''/categories'')\<lparr>req_user := None\<rparr>) =
      \<lparr>completion = Threw, next_calls = 0, responses = [], queries = [], user_after = None\<rparr>"
    by (simp add: check_def resourceIdentification_def order_request_def with_user_def
        throw_def)
  have table: "resourceIdentification ''/store/orders'' = Some ALL_ORDERS"
      "resourceIdentification ''/store/categories'' = Some ALL_CATEGORIES"
    by (simp_all add: resourceIdentification_def)
  have lists: "\<not> listed ALL_ORDERS ''DELETE''" "\<not> listed ALL_CATEGORIES ''GET''"
    by (simp_all add: listed_def)
  from orders admin nobody table lists show ?thesis
    by blast
qed




text \<open>
  C3. For a PUT request classified \<open>SINGLE_ORDER_ITEM\<close>, the check allows if and only
  if the order query resolves to true and the item query resolves to true. The queries are
  made in sequence: when the order query resolves to false the request is denied and the
  order query is the only query made; the item query is made, after the order query, exactly
  when the order query resolved to true.
\<close>

theorem order_item_two_step:
  assumes "resourceIdentification (baseUrl req @ route_path req) = Some SINGLE_ORDER_ITEM"
    and "req_method req = ''PUT''"
  shows "(allows (check e req) \<longleftrightarrow>
            order_query e req = Resolves True \<and> item_query e req = Resolves True) \<and>
         (order_query e req = Resolves False \<longrightarrow>
            denies (check e req) \<and>
            queries (check e req) =
              [OrderRelationship (req_user req) (params req ''orderId'')]) \<and>
         (order_query e req = Resolves True \<longrightarrow>
            queries (check e req) =
              [OrderRelationship (req_user req) (params req ''orderId''),
               ItemRelationship (req_user req) (params req ''orderId'')
                 (params req ''itemId'')]) \<and>
         ((\<exists>q \<in> set (queries (check e req)). is_item_query q) \<longleftrightarrow>
            order_query e req = Resolves True)"
  using assms
  by (auto simp: check_kind order_query_def item_query_def Let_def allows_simps denies_simps
      queries_simps is_item_query_def split: promise.splits)

text \<open>
  The caller related to order 7 and its item 3 is allowed; a caller not related to the order
  is denied after the order query alone, although the item query would have answered true.
\<close>

theorem order_item_two_step_witness:
  "allows (check (example_env Invalid (Resolves None) (Resolves True) (Resolves True))
     (order_request ''PUT'' ''/orders/:orderId/:itemId'')) \<and>
   denies (check (example_env Invalid (Resolves None) (Resolves False) (Resolves True))
     (order_request ''PUT'' ''/orders/:orderId/:itemId'')) \<and>
   queries (check (example_env Invalid (Resolves None) (Resolves False) (Resolves True))
     (order_request ''PUT'' ''/orders/:orderId/:itemId'')) =
     [OrderRelationship (Some scenario_caller) (Some ''7'')]"
proof -
  let ?req = "order_request ''PUT'' ''/orders/:orderId/:itemId''"
  let ?env = "\<lambda>b. example_env Invalid (Resolves None) (Resolves b) (Resolves True)"
  have kind: "resourceIdentification (baseUrl ?req @ route_path ?req) = Some SINGLE_ORDER_ITEM"
    by (simp add: order_request_def resourceIdentification_def)
  have put: "req_method ?req = ''PUT''"
    by (simp add: order_request_def)
  have q: "order_query (?env b) ?req = Resolves b" "item_query (?env b) ?req = Resolves True" for b
    by (simp_all add: order_query_def item_query_def example_env_def)
  have p: "req_user ?req = Some scenario_caller" "params ?req ''orderId'' = Some ''7''"
    by (simp_all add: order_request_def)
  show ?thesis
    using order_item_two_step[OF kind put, of "?env True"]
      order_item_two_step[OF kind put, of "?env False"] q p
    by simp
qed

text \<open>
  C4, on the code. The claim asks that the owner of an account be allowed a PUT without a
  \<open>type\<close> field. User 5 sends \<open>PUT /user/5\<close> with the body \<open>{"hasOwnProperty": 1}\<close>:
  the route names the caller's own id and the body has no \<open>type\<close> field, yet the call of
  \<open>req.body.hasOwnProperty\<close> raises a TypeError; \<open>next()\<close> is not called and nothing is
  sent.
\<close>

theorem single_user_put_own_hasOwnProperty:
  "check quiet_env
     ((user_request ''PUT'' ''/:userId'' None (Some scenario_caller))
        \<lparr>body_hasOwnProperty := True\<rparr>) =
     \<lparr>completion = Threw, next_calls = 0, responses = [], queries = [],
      user_after = Some scenario_caller\<rparr> \<and>
   loose_eq quiet_env
     (params (user_request ''PUT'' ''/:userId'' None (Some scenario_caller)) ''userId'')
     (user_id scenario_caller) \<and>
   \<not> allows (check quiet_env
     ((user_request ''PUT'' ''/:userId'' None (Some scenario_caller))
        \<lparr>body_hasOwnProperty := True\<rparr>))"
proof -
  let ?req = "(user_request ''PUT'' ''/:userId'' None (Some scenario_caller))
                \<lparr>body_hasOwnProperty := True\<rparr>"
  have "resourceIdentification (baseUrl ?req @ route_path ?req) = Some SINGLE_USER"
      "req_method ?req = ''PUT''" "body_hasOwnProperty ?req"
    by (simp_all add: user_request_def resourceIdentification_def)
  then have thrown: "check quiet_env ?req = throw ?req []"
    by (rule single_user_put_throws)
  have result: "throw ?req [] =
      \<lparr>completion = Threw, next_calls = 0, responses = [], queries = [],
       user_after = Some scenario_caller\<rparr>"
    by (simp add: throw_def user_request_def)
  have own: "loose_eq quiet_env
      (params (user_request ''PUT'' ''/:userId'' None (Some scenario_caller)) ''userId'')
      (user_id scenario_caller)"
    by (simp add: loose_eq_def quiet_env_def example_env_def user_request_def
        scenario_caller_def decimal_examples)
  have "\<not> allows (check quiet_env ?req)"
    by (simp only: thrown allows_simps not_False_eq_True)
  with thrown result own show ?thesis
    by simp
qed

text \<open>
  C5, on the code. The claim asks that a PUT with a \<open>type\<close> field be allowed to an
  administrator and denied to everybody else. With the body
  \<open>{"type": "SUPPLIER", "hasOwnProperty": 1}\<close> the call of \<open>req.body.hasOwnProperty\<close>
  raises a TypeError for every caller: the administrator is not allowed, and user 5, the
  owner and no administrator, gets no 403.
\<close>

theorem single_user_type_change_own_hasOwnProperty:
  "check quiet_env
     ((user_request ''PUT'' ''/:userId'' (Some ''SUPPLIER'') (Some administrator))
        \<lparr>body_hasOwnProperty := True\<rparr>) =
     \<lparr>completion = Threw, next_calls = 0, responses = [], queries = [],
      user_after = Some administrator\<rparr> \<and>
   isAdministrator administrator \<and>
   check quiet_env
     ((user_request ''PUT'' ''/:userId'' (Some ''SUPPLIER'') (Some scenario_caller))
        \<lparr>body_hasOwnProperty := True\<rparr>) =
     \<lparr>completion = Threw, next_calls = 0, responses = [], queries = [],
      user_after = Some scenario_caller\<rparr> \<and>
   \<not> isAdministrator scenario_caller"
proof -
  let ?req = "\<lambda>u. (user_request ''PUT'' ''/:userId'' (Some ''SUPPLIER'') (Some u))
                \<lparr>body_hasOwnProperty := True\<rparr>"
  have "resourceIdentification (baseUrl (?req u) @ route_path (?req u)) = Some SINGLE_USER"
      "req_method (?req u) = ''PUT''" "body_hasOwnProperty (?req u)" for u
    by (simp_all add: user_request_def resourceIdentification_def)
  then have thrown: "check quiet_env (?req u) = throw (?req u) []" for u
    by (rule single_user_put_throws)
  have result: "throw (?req u) [] =
      \<lparr>completion = Threw, next_calls = 0, responses = [], queries = [],
       user_after = Some u\<rparr>" for u
    by (simp add: throw_def user_request_def)
  have roles: "isAdministrator administrator" "\<not> isAdministrator scenario_caller"
    by (simp_all add: isAdministrator_def administrator_def scenario_caller_def)
  from thrown result roles show ?thesis
    by simp
qed

text \<open>
  C6. For a request of one of the four cart and wishlist kinds, with a caller attached: the
  check allows if and only if the \<open>userId\<close> of the route equals the caller's id and
  the caller is a consumer. Every caller who is not a consumer is denied, whatever the
  \<open>userId\<close>, and so is an administrator.
\<close>

theorem cart_wishlist_consumer_only:
  assumes "resourceIdentification (baseUrl req @ route_path req) = Some k"
    and "k = ALL_CART_ITEMS \<or> k = SINGLE_CART_ITEM \<or> k = ALL_WISHLIST_ITEMS \<or>
         k = SINGLE_WISHLIST_ITEM"
    and "req_user req = Some u"
  shows "(allows (check e req) \<longleftrightarrow>
            loose_eq e (params req ''userId'') (user_id u) \<and> isConsumer u) \<and>
         (\<not> isConsumer u \<longrightarrow> denies (check e req)) \<and>
         (\<not> allows (check e req) \<longrightarrow> denies (check e req))"
  using assms
  by (auto simp: check_kind with_user_Some allows_simps denies_simps split: if_splits)

text \<open>
  User 5, a consumer, reads the own cart; an administrator with the same id is denied the
  wishlist.
\<close>

theorem cart_wishlist_consumer_only_witness:
  "allows (check quiet_env (user_request ''GET'' ''/:userId/cart'' None (Some scenario_caller))) \<and>
   denies (check quiet_env (user_request ''GET'' ''/:userId/wishlist'' None (Some administrator)))"
proof -
  let ?cart = "user_request ''GET'' ''/:userId/cart'' None (Some scenario_caller)"
  let ?wish = "user_request ''GET'' ''/:userId/wishlist'' None (Some administrator)"
  have kinds: "resourceIdentification (baseUrl ?cart @ route_path ?cart) = Some ALL_CART_ITEMS"
      "resourceIdentification (baseUrl ?wish @ route_path ?wish) = Some ALL_WISHLIST_ITEMS"
    by (simp_all add: user_request_def resourceIdentification_def)
  have users: "req_user ?cart = Some scenario_caller" "req_user ?wish = Some administrator"
    by (simp_all add: user_request_def)
  have own: "loose_eq quiet_env (params ?cart ''userId'') (user_id scenario_caller)"
    by (simp add: loose_eq_def quiet_env_def example_env_def user_request_def
        scenario_caller_def decimal_examples)
  have roles: "isConsumer scenario_caller" "\<not> isConsumer administrator"
    by (simp_all add: isConsumer_def scenario_caller_def administrator_def)
  show ?thesis
    using cart_wishlist_consumer_only[OF kinds(1) _ users(1), where e = quiet_env]
      cart_wishlist_consumer_only[OF kinds(2) _ users(2), where e = quiet_env] own roles
    by simp
qed

text \<open>
  C7. For a request classified \<open>SINGLE_ADDRESS\<close>: a caller who is not an
  administrator is allowed if and only if the \<open>userId\<close> of the route equals the
  caller's id and the number of the \<open>addressId\<close> is among the ids of the caller's
  addresses, and is denied otherwise; an administrator is allowed. The scenario: the
  consumer 5 with the addresses 9 and 12 is allowed \<open>DELETE /user/5/addresses/9\<close> and
  denied \<open>DELETE /user/5/addresses/99\<close>, in every environment that converts the strings
  5, 9 and 99 to these numbers.
\<close>

theorem single_address_membership:
  "(resourceIdentification (baseUrl req @ route_path req) = Some SINGLE_ADDRESS \<and>
    req_user req = Some u \<longrightarrow>
      (\<not> isAdministrator u \<longrightarrow>
         (allows (check e req) \<longleftrightarrow>
            loose_eq e (params req ''userId'') (user_id u) \<and>
            includes_id (map address_id (Address u)) (Number e (params req ''addressId''))) \<and>
         (\<not> allows (check e req) \<longrightarrow> denies (check e req))) \<and>
      (isAdministrator u \<longrightarrow> allows (check e req))) \<and>
   (toNumber e ''5'' = Some 5 \<and> toNumber e ''9'' = Some 9 \<longrightarrow>
      allows (check e (scenario_request ''9''))) \<and>
   (toNumber e ''5'' = Some 5 \<and> toNumber e ''99'' = Some 99 \<longrightarrow>
      denies (check e (scenario_request ''99'')))"
proof -
  have kind: "resourceIdentification (baseUrl (scenario_request a) @ route_path (scenario_request a))
      = Some SINGLE_ADDRESS" for a
    by (simp add: scenario_request_def resourceIdentification_def)
  have general: "resourceIdentification (baseUrl r @ route_path r) = Some SINGLE_ADDRESS \<Longrightarrow>
      req_user r = Some v \<Longrightarrow>
      check e r = (if isAdministrator v \<or> loose_eq e (params r ''userId'') (user_id v) \<and>
            includes_id (map address_id (Address v)) (Number e (params r ''addressId''))
         then allow r [] else reject r [])" for r v
    by (simp add: check_kind with_user_Some Let_def)
  have scen: "req_user (scenario_request a) = Some scenario_caller"
      "params (scenario_request a) ''userId'' = Some ''5''"
      "params (scenario_request a) ''addressId'' = Some a" for a
    by (simp_all add: scenario_request_def)
  have caller: "\<not> isAdministrator scenario_caller" "user_id scenario_caller = 5"
      "map address_id (Address scenario_caller) = [9, 12]"
    by (simp_all add: scenario_caller_def isAdministrator_def)
  show ?thesis
    by (auto simp: general kind scen caller allows_simps denies_simps loose_eq_def Number_def
        includes_id_def)
qed

text \<open>
  The scenario in an environment with the decimal coercion, and an administrator on an
  address that is not the administrator's own.
\<close>

theorem single_address_membership_witness:
  "allows (check quiet_env (scenario_request ''9'')) \<and>
   denies (check quiet_env (scenario_request ''99'')) \<and>
   allows (check quiet_env ((scenario_request ''99'')\<lparr>req_user := Some administrator\<rparr>))"
proof -
  let ?adm = "(scenario_request ''99'')\<lparr>req_user := Some administrator\<rparr>"
  have n: "toNumber quiet_env ''5'' = Some 5" "toNumber quiet_env ''9'' = Some 9"
      "toNumber quiet_env ''99'' = Some 99"
    by (simp_all add: quiet_env_def example_env_def decimal_examples)
  have adm: "resourceIdentification (baseUrl ?adm @ route_path ?adm) = Some SINGLE_ADDRESS"
      "req_user ?adm = Some administrator" "isAdministrator administrator"
    by (simp_all add: scenario_request_def resourceIdentification_def isAdministrator_def
        administrator_def)
  show ?thesis
    using single_address_membership[where req = ?adm and u = administrator and e = quiet_env] n adm
    by simp
qed

text \<open>
  C8. Every denied request gets the same rejection. Whenever the check returns without a
  call of \<open>next()\<close>, whatever the kind and whichever test failed, it has sent one
  response, status 403 with the message "Insufficient permissions for specified resource.";
  two such runs have sent the same responses, and no response with status 403 has another
  body.
\<close>

theorem uniform_rejection:
  "(completion (check e req) = Returned \<and> next_calls (check e req) = 0 \<longrightarrow>
      responses (check e req) = [forbidden]) \<and>
   (completion (check e req) = Returned \<and> next_calls (check e req) = 0 \<and>
    completion (check e' req') = Returned \<and> next_calls (check e' req') = 0 \<longrightarrow>
      responses (check e req) = responses (check e' req')) \<and>
   (\<forall>r \<in> set (responses (check e req)). status r = 403 \<longrightarrow> r = forbidden) \<and>
   forbidden =
     \<lparr>status = 403, message = ''Insufficient permissions for specified resource.''\<rparr>"
proof (intro conjI impI ballI)
  assume "completion (check e req) = Returned \<and> next_calls (check e req) = 0"
  then show "responses (check e req) = [forbidden]"
    by (simp add: returned_without_next)
next
  assume "completion (check e req) = Returned \<and> next_calls (check e req) = 0 \<and>
    completion (check e' req') = Returned \<and> next_calls (check e' req') = 0"
  then have "responses (check e req) = [forbidden]" "responses (check e' req') = [forbidden]"
    by (simp_all add: returned_without_next)
  then show "responses (check e req) = responses (check e' req')"
    by simp
next
  fix r
  assume "r \<in> set (responses (check e req))" and "status r = 403"
  then show "r = forbidden"
    using responses_of_check[of e req] by (auto simp: unauthorized_def)
next
  show "forbidden =
     \<lparr>status = 403, message = ''Insufficient permissions for specified resource.''\<rparr>"
    by (simp add: forbidden_def)
qed

text \<open>
  Three denials for three reasons: a method without a rule (and no caller), a caller
  unrelated to an order, and a caller who reads another user's account.
\<close>

theorem uniform_rejection_witness:
  "responses (check quiet_env (user_request ''DELETE'' ''/:userId/notifications'' None None)) =
     [forbidden] \<and>
   responses (check quiet_env (order_request ''GET'' ''/orders/:orderId'')) =
     responses (check quiet_env (user_request ''GET'' ''/:userId'' None
       (Some (scenario_caller\<lparr>user_id := 6\<rparr>))))"
proof -
  let ?a = "user_request ''DELETE'' ''/:userId/notifications'' None None"
  let ?b = "order_request ''GET'' ''/orders/:orderId''"
  let ?c = "user_request ''GET'' ''/:userId'' None (Some (scenario_caller\<lparr>user_id := 6\<rparr>))"
  have a: "check quiet_env ?a = reject ?a []"
    by (simp add: check_def resourceIdentification_def user_request_def)
  have b: "check quiet_env ?b = reject ?b [OrderRelationship (Some scenario_caller) (Some ''7'')]"
    by (simp add: check_def resourceIdentification_def order_request_def quiet_env_def
        example_env_def)
  have c: "check quiet_env ?c = reject ?c []"
    by (simp add: check_def resourceIdentification_def user_request_def quiet_env_def
        example_env_def with_user_def loose_eq_def decimal_examples scenario_caller_def
        isAdministrator_def)
  have ended:
    "completion (check quiet_env ?a) = Returned \<and> next_calls (check quiet_env ?a) = 0"
    "completion (check quiet_env ?b) = Returned \<and> next_calls (check quiet_env ?b) = 0"
    "completion (check quiet_env ?c) = Returned \<and> next_calls (check quiet_env ?c) = 0"
    by (simp_all only: a b c completion_simps next_calls_simps)
  from uniform_rejection[of quiet_env ?a quiet_env ?b] ended(1)
  have "responses (check quiet_env ?a) = [forbidden]"
    by blast
  moreover from uniform_rejection[of quiet_env ?b quiet_env ?c] ended(2,3)
  have "responses (check quiet_env ?b) = responses (check quiet_env ?c)"
    by blast
  ultimately show ?thesis
    by blast
qed

text \<open>
  C9, as stated, fails. When the order query rejects under \<open>GET /store/orders/7\<close>,
  the check throws: nothing is sent, so the request is not denied, and the rejection leaves
  the check. When the query of the identity store rejects in the creation of an
  administrator, \<open>getUserByID\<close> answers \<open>null\<close>, the authentication check answers
  401 and the authorization check sends no 403.
\<close>

theorem collaborator_failure_counterexample:
  "oracle_fails (example_env Invalid (Resolves None) Rejects (Resolves False))
     (order_request ''GET'' ''/orders/:orderId'') \<and>
   check (example_env Invalid (Resolves None) Rejects (Resolves False))
     (order_request ''GET'' ''/orders/:orderId'') =
     \<lparr>completion = Threw, next_calls = 0, responses = [],
      queries = [OrderRelationship (Some scenario_caller) (Some ''7'')],
      user_after = Some scenario_caller\<rparr> \<and>
   store_fails (example_env (TokenUser (Some 5)) Rejects (Resolves False) (Resolves False))
     (user_request ''POST'' ''/'' (Some ''ADMINISTRATOR'') None) \<and>
   check (example_env (TokenUser (Some 5)) Rejects (Resolves False) (Resolves False))
     (user_request ''POST'' ''/'' (Some ''ADMINISTRATOR'') None) =
     \<lparr>completion = Pending, next_calls = 0, responses = [unauthorized], queries = [],
      user_after = None\<rparr>"
  by (simp add: oracle_fails_def store_fails_def order_query_def check_def
      resourceIdentification_def order_request_def user_request_def example_env_def
      throw_def pending_def authentication_check_def getUserByID_def)

text \<open>
  C9, amended. A failure of a collaborator the check consults never ends in an allow:
  \<open>next()\<close> is not called. A failure of the identity store is answered by the
  authentication check with the 401 response, and no exception leaves the check.
\<close>

theorem collaborator_failure_never_allows:
  "(store_fails e req \<or> oracle_fails e req \<longrightarrow>
      \<not> allows (check e req) \<and> next_calls (check e req) = 0) \<and>
   (store_fails e req \<longrightarrow>
      responses (check e req) = [unauthorized] \<and> completion (check e req) = Pending)"
proof -
  have store: "check e req = pending req unauthorized" if "store_fails e req"
    using that
    by (auto simp: store_fails_def check_kind authentication_check_def getUserByID_def
        split: jwt.splits)
  have query: "\<exists>qs. check e req = throw req qs" if "oracle_fails e req"
    using that
    by (auto simp: oracle_fails_def check_kind order_query_def item_query_def Let_def
        split: option.splits resource.splits)
  show ?thesis
    using store query
    by (auto simp: allows_simps next_calls_simps responses_simps completion_simps)
qed

text \<open>
  The item query rejects after the order query resolved to true; the identity store
  rejects under a valid token.
\<close>

theorem collaborator_failure_never_allows_witness:
  "next_calls (check (example_env Invalid (Resolves None) (Resolves True) Rejects)
     (order_request ''PUT'' ''/orders/:orderId/:itemId'')) = 0 \<and>
   responses (check (example_env (TokenUser (Some 5)) Rejects (Resolves False) (Resolves False))
     (user_request ''POST'' ''/'' (Some ''ADMINISTRATOR'') None)) = [unauthorized]"
proof -
  let ?e1 = "example_env Invalid (Resolves None) (Resolves True) Rejects"
  let ?r1 = "order_request ''PUT'' ''/orders/:orderId/:itemId''"
  let ?e2 = "example_env (TokenUser (Some 5)) Rejects (Resolves False) (Resolves False)"
  let ?r2 = "user_request ''POST'' ''/'' (Some ''ADMINISTRATOR'') None"
  have o: "oracle_fails ?e1 ?r1"
    by (simp add: oracle_fails_def order_query_def item_query_def resourceIdentification_def
        order_request_def example_env_def)
  have s: "store_fails ?e2 ?r2"
    by (simp add: store_fails_def resourceIdentification_def user_request_def example_env_def)
  from collaborator_failure_never_allows[of ?e1 ?r1] o
  have "next_calls (check ?e1 ?r1) = 0"
    by blast
  moreover from collaborator_failure_never_allows[of ?e2 ?r2] s
  have "responses (check ?e2 ?r2) = [unauthorized]"
    by blast
  ultimately show ?thesis
    by blast
qed

text \<open>
  C10. The table maps \<open>/store/products/:productId\<close> to \<open>SINGLE_PRODUCT\<close>, and
  the switch has no case for this kind: every request so classified is denied, whatever its
  method and whoever calls.
\<close>

theorem single_product_always_denied:
  "resourceIdentification ''/store/products/:productId'' = Some SINGLE_PRODUCT \<and>
   (resourceIdentification (baseUrl req @ route_path req) = Some SINGLE_PRODUCT \<longrightarrow>
      denies (check e req) \<and> next_calls (check e req) = 0)"
  by (simp add: check_kind denies_simps next_calls_simps) (simp add: resourceIdentification_def)

text \<open>
  An administrator reads a product.
\<close>

theorem single_product_always_denied_witness:
  "denies (check quiet_env
     ((order_request ''GET'' ''/products/:productId'')\<lparr>req_user := Some administrator\<rparr>))"
proof -
  let ?req = "(order_request ''GET'' ''/products/:productId'')\<lparr>req_user := Some administrator\<rparr>"
  have "resourceIdentification (baseUrl ?req @ route_path ?req) = Some SINGLE_PRODUCT"
    by (simp add: order_request_def resourceIdentification_def)
  with single_product_always_denied[of ?req quiet_env] show ?thesis
    by blast
qed

end
